theory Spec2Isabelle
  imports Main
begin

section \<open>Strings of the host language\<close>

text \<open>
  A string is a list of code units. Every string that the validation logic inspects is an
  HTTP header value, whose code units lie in 0..255, so \<^typ>\<open>char\<close> is the code unit.
  \<open>DQ\<close> is the double-quote character (code 0x22).
\<close>

abbreviation DQ :: char where
  "DQ \<equiv> CHR 0x22"

text \<open>
  \<open>s.split(c)\<close> for a one-character separator: the pieces between the separators, in order.
  The result is never empty: the empty string splits into one empty piece.
\<close>

fun split :: "char \<Rightarrow> string \<Rightarrow> string list" where
  "split c [] = [[]]"
| "split c (x # xs) =
     (if x = c then [] # split c xs
      else (case split c xs of
              [] \<Rightarrow> [[x]]
            | w # ws \<Rightarrow> (x # w) # ws))"

text \<open>
  \<open>s.trim()\<close> removes white space and line terminators from both ends. Among the code
  units 0..255 these are TAB, LF, VT, FF, CR, SPACE and NBSP.
\<close>

definition is_space :: "char \<Rightarrow> bool" where
  "is_space c \<longleftrightarrow>
     c = CHR 0x09 \<or> c = CHR 0x0A \<or> c = CHR 0x0B \<or> c = CHR 0x0C \<or> c = CHR 0x0D \<or>
     c = CHR 0x20 \<or> c = CHR 0xA0"

definition trim :: "string \<Rightarrow> string" where
  "trim s = rev (dropWhile is_space (rev (dropWhile is_space s)))"

text \<open>Truthiness of a value that is a string or undefined/null: false for the empty string.\<close>

fun truthy :: "string option \<Rightarrow> bool" where
  "truthy None = False"
| "truthy (Some s) = (s \<noteq> [])"

section \<open>Tag normalisation and comparison\<close>

text \<open>
  \<open>etag.replace\<close> with the pattern \<open>^W/\<close> and the flag \<open>i\<close>, replacing by the empty
  string: a leading \<open>W/\<close> or \<open>w/\<close> is removed, once.
\<close>

fun replace_weak_i :: "string \<Rightarrow> string" where
  "replace_weak_i (a # b # rest) =
     (if (a = CHR ''W'' \<or> a = CHR ''w'') \<and> b = CHR ''/'' then rest else a # b # rest)"
| "replace_weak_i s = s"

text \<open>
  \<open>etag.replace\<close> with the pattern \<open>^W/\<close> and no flag: only a leading upper-case \<open>W/\<close>
  is removed.
\<close>

fun replace_weak :: "string \<Rightarrow> string" where
  "replace_weak (a # b # rest) =
     (if a = CHR ''W'' \<and> b = CHR ''/'' then rest else a # b # rest)"
| "replace_weak s = s"

text \<open>
  \<open>replace\<close> with the pattern of one double quote and the flag \<open>g\<close>: every double quote is
  removed, wherever it stands.
\<close>

definition replace_quotes :: "string \<Rightarrow> string" where
  "replace_quotes s = filter (\<lambda>c. c \<noteq> DQ) s"

text \<open>\<open>normalizeETag\<close> (private, used by \<open>anyETagMatches\<close>).\<close>

definition normalizeETag :: "string \<Rightarrow> string" where
  "normalizeETag etag = replace_quotes (replace_weak_i etag)"

text \<open>
  \<open>normalize\<close> (private, used by \<open>compareETags\<close>); the name is suffixed because
  \<open>normalize\<close> is a constant of the library.
\<close>

definition normalize_tag :: "string \<Rightarrow> string" where
  "normalize_tag etag = replace_quotes (replace_weak etag)"

text \<open>\<open>anyETagMatches\<close>: \<open>Array.prototype.some\<close> over the client tags.\<close>

definition anyETagMatches :: "string list \<Rightarrow> string \<Rightarrow> bool" where
  "anyETagMatches clientETags serverETag =
     list_ex (\<lambda>clientETag.
        if clientETag = ''*'' then True
        else normalizeETag clientETag = normalizeETag serverETag) clientETags"

text \<open>
  \<open>compareETags\<close> (public). The recursion is on the pieces of a value that contains a
  comma; a piece contains none, so the recursion is at most one level deep.
\<close>

function compareETags :: "string \<Rightarrow> string \<Rightarrow> bool" where
  "compareETags clientETag serverETag =
     (if clientETag = [] \<or> serverETag = [] then False
      else if clientETag = ''*'' then True
      else if CHR '','' \<in> set clientETag then
        list_ex (\<lambda>tag. compareETags tag serverETag) (map trim (split CHR '','' clientETag))
      else normalize_tag clientETag = normalize_tag serverETag)"
  by pat_completeness auto
termination
proof (relation "measure (\<lambda>(c, s). if CHR '','' \<in> set c then 1 else 0)")
  show "wf (measure (\<lambda>(c, s). if CHR '','' \<in> set c then 1 else (0::nat)))"
    by simp
next
  fix clientETag serverETag :: string and tag
  assume comma: "CHR '','' \<in> set clientETag"
    and tag: "tag \<in> set (map trim (split CHR '','' clientETag))"
  have piece: "w \<in> set (split c s) \<Longrightarrow> c \<notin> set w" for w c and s :: string
  proof (induction s arbitrary: w)
    case Nil
    then show ?case by simp
  next
    case (Cons x xs)
    then show ?case
      by (cases "split c xs") (auto split: if_splits)
  qed
  have trimmed: "x \<in> set (trim s) \<Longrightarrow> x \<in> set s" for x s
  proof -
    assume "x \<in> set (trim s)"
    then have "x \<in> set (dropWhile is_space (rev (dropWhile is_space s)))"
      by (simp add: trim_def)
    then have "x \<in> set (rev (dropWhile is_space s))"
      by (rule set_dropWhileD)
    then have "x \<in> set (dropWhile is_space s)"
      by simp
    then show "x \<in> set s"
      by (rule set_dropWhileD)
  qed
  from tag obtain w where "w \<in> set (split CHR '','' clientETag)" and "tag = trim w"
    by auto
  then have "CHR '','' \<notin> set tag"
    using piece [of w "CHR '',''" clientETag] trimmed [of "CHR '',''" w] by auto
  with comma
  show "((tag, serverETag), (clientETag, serverETag))
          \<in> measure (\<lambda>(c, s). if CHR '','' \<in> set c then 1 else 0)"
    by simp
qed

section \<open>The request/response context\<close>

text \<open>
  Modelled from the spec: the type \<open>HttpContext\<close> and its header store \<open>ctx.header\<close>
  (declared in the package's interface directory). The context carries the request method,
  the response status and body, the host, the subdomains and one header store, "a plain
  string-based header map" read with \<open>get\<close> and written with \<open>set\<close> and \<open>remove\<close>
  under the lower-case names the code uses. An absent body (\<open>null\<close>) or header
  (\<open>undefined\<close>) is \<open>None\<close>. The field \<open>http_method\<close> is \<open>ctx.method\<close>, renamed because
  the bare word is reserved in the proof language.
\<close>

record HttpContext =
  http_method :: string
  status :: int
  body :: "string option"
  header :: "string \<rightharpoonup> string"
  host :: "string option"
  subdomains :: "string list"

definition header_get :: "HttpContext \<Rightarrow> string \<Rightarrow> string option" where
  "header_get ctx name = header ctx name"

definition header_set :: "HttpContext \<Rightarrow> string \<Rightarrow> string \<Rightarrow> HttpContext" where
  "header_set ctx name v = ctx\<lparr>header := (header ctx)(name \<mapsto> v)\<rparr>"

definition header_remove :: "HttpContext \<Rightarrow> string \<Rightarrow> HttpContext" where
  "header_remove ctx name = ctx\<lparr>header := (header ctx)(name := None)\<rparr>"

datatype EntityTagStrength = Strong | Weak

type_synonym EntityTagAlgorithm = string

text \<open>
  The channel: its two read-only fields, and the two settings it reads with
  \<open>this.get('poweredBy')\<close> and \<open>this.get('subdomainOffset')\<close>.
\<close>

record SettingsChannel =
  strength :: EntityTagStrength
  algorithm :: EntityTagAlgorithm
  poweredBy :: "string option"
  subdomainOffset :: "int option"

text \<open>
  The constructor, from the settings \<open>etag?.strength\<close>, \<open>etag?.algorithm\<close>, \<open>poweredBy\<close>
  and \<open>subdomainOffset\<close>: the defaults of \<open>??\<close> are \<open>strong\<close> and \<open>sha256\<close>.
\<close>

definition SettingsChannel_new ::
  "EntityTagStrength option \<Rightarrow> EntityTagAlgorithm option \<Rightarrow> string option \<Rightarrow> int option
     \<Rightarrow> SettingsChannel" where
  "SettingsChannel_new etag_strength etag_algorithm powered offset =
     \<lparr>strength = (case etag_strength of None \<Rightarrow> Strong | Some s \<Rightarrow> s),
      algorithm = (case etag_algorithm of None \<Rightarrow> ''sha256'' | Some a \<Rightarrow> a),
      poweredBy = powered,
      subdomainOffset = offset\<rparr>"

text \<open>The snapshot of the client's validators, taken before the downstream handlers run.\<close>

record ClientValidation =
  etag :: "string option"
  modifiedSince :: "string option"

text \<open>
  The source reports its decision only through its effect: a call of \<open>sendNotModified\<close>
  followed by \<open>return\<close>, or falling off the end. The model returns the exit taken next to
  the updated context.
\<close>

datatype ValidationOutcome = Continue | NotModified

section \<open>Fingerprint generation\<close>

text \<open>
  Modelled from the spec: \<open>generateETag\<close> (imported from the package's \<open>utils\<close>). "Hash the
  body with the selected algorithm; hex-encode the digest; wrap as "<hex>" if strength =
  strong, or W/"<hex>" if weak"; "an empty or absent body still produces a valid
  fingerprint of the empty-content hash". The hash itself is the platform's: \<open>dg\<close> maps an
  algorithm name and a content to the hex digest.
\<close>

definition generateETag ::
  "(EntityTagAlgorithm \<Rightarrow> string \<Rightarrow> string) \<Rightarrow> string option \<Rightarrow> EntityTagAlgorithm
     \<Rightarrow> EntityTagStrength \<Rightarrow> string" where
  "generateETag dg b alg str =
     (let hex = dg alg (case b of None \<Rightarrow> [] | Some content \<Rightarrow> content)
      in case str of
           Strong \<Rightarrow> [DQ] @ hex @ [DQ]
         | Weak \<Rightarrow> ''W/'' @ [DQ] @ hex @ [DQ])"

section \<open>The validation pipeline\<close>

text \<open>\<open>sendNotModified\<close>.\<close>

definition sendNotModified :: "HttpContext \<Rightarrow> HttpContext" where
  "sendNotModified ctx =
     (let ctx = ctx\<lparr>status := 304\<rparr>;
          ctx = ctx\<lparr>body := None\<rparr>;
          ctx = header_remove ctx ''content-type''
      in header_remove ctx ''content-length'')"

text \<open>
  \<open>parseDate\<close>. \<open>new Date(dateString)\<close> is the platform's date parser: \<open>dp\<close> maps a string
  to its time value in milliseconds, \<open>None\<close> when the time value is \<open>NaN\<close> (an invalid date).
\<close>

definition parseDate :: "(string \<Rightarrow> int option) \<Rightarrow> string \<Rightarrow> int option" where
  "parseDate dp dateString =
     (case dp dateString of None \<Rightarrow> None | Some date \<Rightarrow> Some date)"

text \<open>\<open>shouldProcessValidation\<close>.\<close>

definition shouldProcessValidation :: "HttpContext \<Rightarrow> bool" where
  "shouldProcessValidation ctx \<longleftrightarrow>
     (http_method ctx = ''GET'' \<or> http_method ctx = ''HEAD'') \<and> status ctx \<ge> 200 \<and> status ctx < 300 \<and>
     truthy (body ctx) \<and> \<not> truthy (header_get ctx ''etag'')"

text \<open>
  \<open>handleCacheValidation\<close>. \<open>etagMatch\<close> is the condition under which the first
  \<open>sendNotModified\<close> is reached, \<open>dateMatch\<close> the one for the second.
\<close>

definition handleCacheValidation ::
  "(EntityTagAlgorithm \<Rightarrow> string \<Rightarrow> string) \<Rightarrow> (string \<Rightarrow> int option) \<Rightarrow> SettingsChannel
     \<Rightarrow> HttpContext \<Rightarrow> ClientValidation \<Rightarrow> ValidationOutcome \<times> HttpContext" where
  "handleCacheValidation dg dp this ctx clientValidation =
     (let serverETag = generateETag dg (body ctx) (algorithm this) (strength this);
          ctx = header_set ctx ''etag'' serverETag;
          etagMatch =
            (case etag clientValidation of
               None \<Rightarrow> False
             | Some v \<Rightarrow> v \<noteq> [] \<and> anyETagMatches (map trim (split CHR '','' v)) serverETag);
          dateMatch =
            (case modifiedSince clientValidation of
               None \<Rightarrow> False
             | Some since \<Rightarrow> since \<noteq> [] \<and>
                 (case header_get ctx ''last-modified'' of
                    None \<Rightarrow> False
                  | Some lastModifiedHeader \<Rightarrow> lastModifiedHeader \<noteq> [] \<and>
                      (case parseDate dp lastModifiedHeader of
                         None \<Rightarrow> False
                       | Some lastModified \<Rightarrow>
                           (case parseDate dp since of
                              None \<Rightarrow> False
                            | Some sinceDate \<Rightarrow> lastModified \<le> sinceDate))))
      in if etagMatch then (NotModified, sendNotModified ctx)
         else if dateMatch then (NotModified, sendNotModified ctx)
         else (Continue, ctx))"

section \<open>Subdomains\<close>

text \<open>A character class \<open>[lo-hi]\<close> of a pattern: the code unit lies between the two bounds.\<close>

definition in_range :: "char \<Rightarrow> char \<Rightarrow> char \<Rightarrow> bool" where
  "in_range c lo hi \<longleftrightarrow> (of_char lo :: nat) \<le> of_char c \<and> (of_char c :: nat) \<le> of_char hi"

definition is_digit :: "char \<Rightarrow> bool" where
  "is_digit c \<longleftrightarrow> in_range c CHR ''0'' CHR ''9''"

definition is_hex_digit :: "char \<Rightarrow> bool" where
  "is_hex_digit c \<longleftrightarrow>
     is_digit c \<or> in_range c CHR ''a'' CHR ''f'' \<or> in_range c CHR ''A'' CHR ''F''"

text \<open>\<open>parseInt(part, 10)\<close> on a string of decimal digits.\<close>

definition parseInt10 :: "string \<Rightarrow> nat" where
  "parseInt10 part = foldl (\<lambda>acc c. 10 * acc + (of_char c - of_char CHR ''0'' :: nat)) 0 part"

text \<open>
  \<open>_isIPAddress\<close>. A string matches the IPv4 pattern when its pieces between dots are
  four groups of one to three digits; it matches the IPv6 pattern when its pieces between
  colons are eight groups of one to four hexadecimal digits.
\<close>

definition isIPAddress :: "string \<Rightarrow> bool" where
  "isIPAddress str =
     (let groups = split CHR ''.'' str in
      if length groups = 4 \<and> list_all (\<lambda>g. 1 \<le> length g \<and> length g \<le> 3 \<and> list_all is_digit g) groups
      then list_all (\<lambda>part. part \<ge> 0 \<and> part \<le> 255) (map parseInt10 groups)
      else (let hs = split CHR '':'' str in
            length hs = 8 \<and> list_all (\<lambda>g. 1 \<le> length g \<and> length g \<le> 4 \<and> list_all is_hex_digit g) hs))"

text \<open>\<open>segments.slice(0, end)\<close>: a negative \<open>end\<close> counts from the end of the array.\<close>

definition slice0 :: "'a list \<Rightarrow> int \<Rightarrow> 'a list" where
  "slice0 xs e =
     (let len = int (length xs);
          k = (if e < 0 then max (len + e) 0 else min e len)
      in take (nat k) xs)"

text \<open>
  \<open>_getSubdomains\<close>. With the offset undefined, \<open>segments.length - offset\<close> is \<open>NaN\<close> and
  the slice is empty.
\<close>

definition getSubdomains :: "SettingsChannel \<Rightarrow> HttpContext \<Rightarrow> string list" where
  "getSubdomains this ctx =
     (case host ctx of
        None \<Rightarrow> []
      | Some h \<Rightarrow>
          (let hostname = (case split CHR '':'' h of [] \<Rightarrow> [] | first # _ \<Rightarrow> first) in
           if isIPAddress hostname then []
           else (let segments = split CHR ''.'' hostname in
                 case subdomainOffset this of
                   None \<Rightarrow> []
                 | Some offset \<Rightarrow> rev (slice0 segments (int (length segments) - offset)))))"

section \<open>The middleware\<close>

text \<open>
  The closure returned by \<open>createMiddleware\<close> suspends at \<open>await next()\<close>. \<open>beforeNext\<close> is
  its part up to that point: it yields the context handed to the downstream handlers and
  the snapshot of the client's validators.
\<close>

definition beforeNext :: "SettingsChannel \<Rightarrow> HttpContext \<Rightarrow> HttpContext \<times> ClientValidation" where
  "beforeNext this ctx =
     (let ctx = (case poweredBy this of
                   None \<Rightarrow> ctx
                 | Some p \<Rightarrow> if p \<noteq> [] then header_set ctx ''x-powered-by'' p else ctx);
          ctx = ctx\<lparr>subdomains := getSubdomains this ctx\<rparr>;
          clientValidation =
            \<lparr>etag = header_get ctx ''if-none-match'',
             modifiedSince = header_get ctx ''if-modified-since''\<rparr>
      in (ctx, clientValidation))"

text \<open>
  \<open>createMiddleware\<close>: the whole closure, with the downstream handlers \<open>next\<close> as a
  transformer of the context.
\<close>

definition createMiddleware ::
  "(EntityTagAlgorithm \<Rightarrow> string \<Rightarrow> string) \<Rightarrow> (string \<Rightarrow> int option) \<Rightarrow> SettingsChannel
     \<Rightarrow> (HttpContext \<Rightarrow> HttpContext) \<Rightarrow> HttpContext \<Rightarrow> ValidationOutcome \<times> HttpContext" where
  "createMiddleware dg dp this next ctx =
     (let (ctx, clientValidation) = beforeNext this ctx;
          ctx = next ctx
      in if shouldProcessValidation ctx then handleCacheValidation dg dp this ctx clientValidation
         else (Continue, ctx))"

section \<open>The specification's normalized equality\<close>

text \<open>
  The comparison in the words of the specification, for comparison with the code: "strip a
  leading weak marker (W/, case-insensitive) and strip surrounding quote characters from
  both sides, then compare the remaining opaque identifiers as exact strings".
\<close>

definition spec_strip_quotes :: "string \<Rightarrow> string" where
  "spec_strip_quotes s =
     (let s1 = (case s of [] \<Rightarrow> [] | c # r \<Rightarrow> if c = DQ then r else s)
      in if s1 \<noteq> [] \<and> last s1 = DQ then butlast s1 else s1)"

definition spec_identifier :: "string \<Rightarrow> string" where
  "spec_identifier t = spec_strip_quotes (replace_weak_i t)"

definition spec_normalized_equal :: "string \<Rightarrow> string \<Rightarrow> bool" where
  "spec_normalized_equal a b \<longleftrightarrow> spec_identifier a = spec_identifier b"

section \<open>Sample data\<close>

text \<open>
  A platform and a request for the concrete instances below: a digest that maps the body
  \<open>hello\<close> to \<open>abc\<close>, a date parser that knows three dates (as milliseconds since the
  epoch), a channel with the default settings, a finished response and a POST request.
\<close>

definition example_digest :: "EntityTagAlgorithm \<Rightarrow> string \<Rightarrow> string" where
  "example_digest alg content = (if content = ''hello'' then ''abc'' else ''000'')"

definition example_dates :: "string \<Rightarrow> int option" where
  "example_dates s =
     (if s = ''Tue, 31 Dec 2019 00:00:00 GMT'' then Some 1577750400000
      else if s = ''Wed, 01 Jan 2020 00:00:00 GMT'' then Some 1577836800000
      else if s = ''Thu, 02 Jan 2020 00:00:00 GMT'' then Some 1577923200000
      else None)"

definition example_channel :: SettingsChannel where
  "example_channel = SettingsChannel_new None None None (Some 2)"

definition example_response :: HttpContext where
  "example_response =
     \<lparr>http_method = ''GET'', status = 200, body = Some ''hello'',
      header = [''content-type'' \<mapsto> ''text/plain'', ''content-length'' \<mapsto> ''5'',
                ''last-modified'' \<mapsto> ''Tue, 31 Dec 2019 00:00:00 GMT''],
      host = Some ''api.example.com'', subdomains = [''api'']\<rparr>"

definition example_post :: HttpContext where
  "example_post =
     \<lparr>http_method = ''POST'', status = 404, body = None,
      header = [''if-none-match'' \<mapsto> ''*''],
      host = Some ''api.example.com'', subdomains = []\<rparr>"

definition example_next :: "HttpContext \<Rightarrow> HttpContext" where
  "example_next ctx = ctx\<lparr>status := 200, body := Some ''hello''\<rparr>"

text \<open>A GET request with a validator, and a handler that sets a fingerprint of its own.\<close>

definition example_get :: HttpContext where
  "example_get =
     \<lparr>http_method = ''GET'', status = 404, body = None,
      header = [''if-none-match'' \<mapsto> DQ # ''abc'' @ [DQ]],
      host = None, subdomains = []\<rparr>"

definition example_next_tagged :: "HttpContext \<Rightarrow> HttpContext" where
  "example_next_tagged ctx =
     header_set (ctx\<lparr>status := 200, body := Some ''hello''\<rparr>) ''etag'' (DQ # ''xyz'' @ [DQ])"

text \<open>A handler that sets the fingerprint header to the empty string.\<close>

definition example_next_empty_tag :: "HttpContext \<Rightarrow> HttpContext" where
  "example_next_empty_tag ctx =
     header_set (ctx\<lparr>status := 200, body := Some ''hello''\<rparr>) ''etag'' []"

section \<open>Basic facts about the header store and the 304 rewrite\<close>

lemma header_get_set:
  "header_get (header_set ctx k v) k' = (if k' = k then Some v else header_get ctx k')"
  by (simp add: header_get_def header_set_def)

lemma sendNotModified_fields:
  "status (sendNotModified ctx) = 304"
  "body (sendNotModified ctx) = None"
  "http_method (sendNotModified ctx) = http_method ctx"
  "host (sendNotModified ctx) = host ctx"
  "subdomains (sendNotModified ctx) = subdomains ctx"
  by (simp_all add: sendNotModified_def header_remove_def Let_def)

lemma sendNotModified_header:
  "header_get (sendNotModified ctx) name =
     (if name = ''content-type'' \<or> name = ''content-length'' then None else header_get ctx name)"
  by (simp add: sendNotModified_def header_remove_def header_get_def Let_def)

text \<open>
  The two exits of \<open>handleCacheValidation\<close>: the response is rewritten exactly when the
  tag check or the date check succeeds; otherwise only the fingerprint is attached.
\<close>

lemma handleCacheValidation_cases:
  "handleCacheValidation dg dp this ctx cv =
     (let serverETag = generateETag dg (body ctx) (algorithm this) (strength this);
          ctx1 = header_set ctx ''etag'' serverETag
      in if (\<exists>raw. etag cv = Some raw \<and> raw \<noteq> [] \<and>
               anyETagMatches (map trim (split CHR '','' raw)) serverETag)
            \<or> (\<exists>since lm t1 t2. modifiedSince cv = Some since \<and> since \<noteq> [] \<and>
                  header_get ctx ''last-modified'' = Some lm \<and> lm \<noteq> [] \<and>
                  parseDate dp lm = Some t1 \<and> parseDate dp since = Some t2 \<and> t1 \<le> t2)
         then (NotModified, sendNotModified ctx1) else (Continue, ctx1))"
  by (auto simp: handleCacheValidation_def Let_def header_get_set split: option.splits)

lemma handleCacheValidation_NotModified:
  assumes "handleCacheValidation dg dp this ctx cv = (NotModified, ctx')"
  shows "ctx' = sendNotModified (header_set ctx ''etag''
           (generateETag dg (body ctx) (algorithm this) (strength this)))"
  using assms by (simp add: handleCacheValidation_cases Let_def split: if_splits)

text \<open>Eligibility, with the truthiness tests of the source written out.\<close>

lemma shouldProcessValidation_iff:
  "shouldProcessValidation c \<longleftrightarrow>
     (http_method c = ''GET'' \<or> http_method c = ''HEAD'') \<and> 200 \<le> status c \<and> status c < 300 \<and>
     (\<exists>b. body c = Some b \<and> b \<noteq> []) \<and>
     \<not> (\<exists>v. header_get c ''etag'' = Some v \<and> v \<noteq> [])"
proof -
  have "truthy x \<longleftrightarrow> (\<exists>v. x = Some v \<and> v \<noteq> [])" for x
    by (cases x) simp_all
  then show ?thesis
    by (simp add: shouldProcessValidation_def)
qed

text \<open>Evaluation of the sample data.\<close>

lemma example_fingerprint:
  "generateETag example_digest (body example_response) (algorithm example_channel)
     (strength example_channel) = DQ # ''abc'' @ [DQ]"
  by (simp add: generateETag_def example_digest_def example_response_def example_channel_def
        SettingsChannel_new_def)

lemma example_last_modified:
  "header_get example_response ''last-modified'' = Some ''Tue, 31 Dec 2019 00:00:00 GMT''"
  by (simp add: header_get_def example_response_def)

lemma example_parse:
  "parseDate example_dates ''Tue, 31 Dec 2019 00:00:00 GMT'' = Some 1577750400000"
  "parseDate example_dates ''Wed, 01 Jan 2020 00:00:00 GMT'' = Some 1577836800000"
  "parseDate example_dates ''Thu, 02 Jan 2020 00:00:00 GMT'' = Some 1577923200000"
  "parseDate example_dates ''not-a-date'' = None"
  by (simp_all add: parseDate_def example_dates_def)

section \<open>Eligibility\<close>

text \<open>
  C1, as amended. Let \<open>c\<close> be the context as the downstream handlers leave it. If the
  method is neither GET nor HEAD, or the status is outside [200,300), or the body is absent
  or empty, or the response already carries a fingerprint header with a non-empty value,
  then the validation step is skipped: \<open>shouldProcessValidation\<close> is false and the
  middleware ends with outcome \<open>Continue\<close> and with exactly the context \<open>c\<close>, for every
  digest function. No fingerprint is computed and no header is attached.
\<close>

theorem ineligible_response_untouched:
  assumes "c = next (fst (beforeNext this ctx0))"
    and "(http_method c \<noteq> ''GET'' \<and> http_method c \<noteq> ''HEAD'') \<or> status c < 200 \<or> 300 \<le> status c \<or>
         body c = None \<or> body c = Some [] \<or> (\<exists>v. header_get c ''etag'' = Some v \<and> v \<noteq> [])"
  shows "\<not> shouldProcessValidation c \<and> createMiddleware dg dp this next ctx0 = (Continue, c)"
proof -
  from assms(2) have skip: "\<not> shouldProcessValidation c"
    unfolding shouldProcessValidation_iff by auto
  then have "createMiddleware dg dp this next ctx0 = (Continue, c)"
    using assms(1) by (simp add: createMiddleware_def Let_def case_prod_beta)
  with skip show ?thesis by simp
qed

text \<open>
  A POST request whose handler produces a 200 response with a body, and a GET request whose
  handler has set a fingerprint of its own: nothing is attached, and the handler's
  fingerprint stays.
\<close>

theorem ineligible_response_untouched_witness:
  "http_method (example_next (fst (beforeNext example_channel example_post))) = ''POST'' \<and>
   createMiddleware example_digest example_dates example_channel example_next example_post =
     (Continue, example_next (fst (beforeNext example_channel example_post))) \<and>
   header_get (example_next_tagged (fst (beforeNext example_channel example_get))) ''etag'' =
     Some (DQ # ''xyz'' @ [DQ]) \<and>
   createMiddleware example_digest example_dates example_channel example_next_tagged example_get =
     (Continue, example_next_tagged (fst (beforeNext example_channel example_get)))"
proof -
  let ?c = "example_next (fst (beforeNext example_channel example_post))"
  let ?d = "example_next_tagged (fst (beforeNext example_channel example_get))"
  have post: "http_method ?c = ''POST''"
    by (simp add: example_next_def beforeNext_def example_post_def example_channel_def
          SettingsChannel_new_def Let_def)
  then have "(http_method ?c \<noteq> ''GET'' \<and> http_method ?c \<noteq> ''HEAD'') \<or> status ?c < 200 \<or>
         300 \<le> status ?c \<or> body ?c = None \<or> body ?c = Some [] \<or>
         (\<exists>v. header_get ?c ''etag'' = Some v \<and> v \<noteq> [])"
    by simp
  from ineligible_response_untouched
         [of ?c example_next example_channel example_post example_digest example_dates,
          OF refl this]
  have first: "createMiddleware example_digest example_dates example_channel example_next
                 example_post = (Continue, ?c)"
    by simp
  have tagged: "header_get ?d ''etag'' = Some (DQ # ''xyz'' @ [DQ])"
    by (simp add: example_next_tagged_def header_get_set)
  then have "(http_method ?d \<noteq> ''GET'' \<and> http_method ?d \<noteq> ''HEAD'') \<or> status ?d < 200 \<or>
         300 \<le> status ?d \<or> body ?d = None \<or> body ?d = Some [] \<or>
         (\<exists>v. header_get ?d ''etag'' = Some v \<and> v \<noteq> [])"
    by simp
  from ineligible_response_untouched
         [of ?d example_next_tagged example_channel example_get example_digest example_dates,
          OF refl this]
  have second: "createMiddleware example_digest example_dates example_channel
                  example_next_tagged example_get = (Continue, ?d)"
    by simp
  from post first tagged second show ?thesis
    by (intro conjI)
qed

text \<open>
  C1 as stated fails for a fingerprint header that is present with the empty string as its
  value: the source tests the value for truthiness, so the response is eligible, the
  fingerprint is generated and written over the header, and here, the client's tag being
  that of the body, the response is rewritten to 304.
\<close>

theorem present_empty_tag_counterexample:
  "header_get (example_next_empty_tag (fst (beforeNext example_channel example_get))) ''etag'' =
     Some [] \<and>
   shouldProcessValidation (example_next_empty_tag (fst (beforeNext example_channel example_get))) \<and>
   createMiddleware example_digest example_dates example_channel example_next_empty_tag example_get =
     (NotModified,
      sendNotModified (header_set
        (example_next_empty_tag (fst (beforeNext example_channel example_get)))
        ''etag'' (DQ # ''abc'' @ [DQ]))) \<and>
   header_get (snd (createMiddleware example_digest example_dates example_channel
       example_next_empty_tag example_get)) ''etag'' = Some (DQ # ''abc'' @ [DQ])"
proof -
  let ?c = "example_next_empty_tag (fst (beforeNext example_channel example_get))"
  have fields: "http_method ?c = ''GET''" "status ?c = 200" "body ?c = Some ''hello''"
    "header_get ?c ''etag'' = Some []"
    by (simp_all add: example_next_empty_tag_def beforeNext_def example_get_def
          example_channel_def SettingsChannel_new_def Let_def header_set_def header_get_def)
  then have should: "shouldProcessValidation ?c"
    by (simp add: shouldProcessValidation_def)
  have cv: "snd (beforeNext example_channel example_get) =
      \<lparr>etag = Some (DQ # ''abc'' @ [DQ]), modifiedSince = None\<rparr>"
    by (simp add: beforeNext_def example_get_def example_channel_def SettingsChannel_new_def
          Let_def header_get_def)
  have tag: "generateETag example_digest (body ?c) (algorithm example_channel)
      (strength example_channel) = DQ # ''abc'' @ [DQ]"
    using fields(3)
    by (simp add: generateETag_def example_digest_def example_channel_def
          SettingsChannel_new_def)
  have run: "createMiddleware example_digest example_dates example_channel
      example_next_empty_tag example_get =
     (NotModified, sendNotModified (header_set ?c ''etag'' (DQ # ''abc'' @ [DQ])))"
    using should
    by (simp add: createMiddleware_def case_prod_beta Let_def cv handleCacheValidation_def tag
          anyETagMatches_def trim_def is_space_def)
  have "header_get (sendNotModified (header_set ?c ''etag'' (DQ # ''abc'' @ [DQ]))) ''etag'' =
      Some (DQ # ''abc'' @ [DQ])"
    by (simp add: sendNotModified_header header_get_set)
  with fields(4) should run show ?thesis
    by simp
qed

section \<open>Precedence of the tag check\<close>

text \<open>
  C2. If the request supplied an If-None-Match value (a non-empty one) and \<open>anyETagMatches\<close>
  reports a match of its comma-separated, trimmed elements against the newly generated
  fingerprint, then \<open>handleCacheValidation\<close> ends with outcome \<open>NotModified\<close> on the
  response with the fingerprint attached. The result mentions neither the date parser nor
  If-Modified-Since nor Last-Modified: it is the same for all of them, so the date check
  has no part in it.
\<close>

theorem etag_match_short_circuits:
  assumes "etag cv = Some raw" and "raw \<noteq> []"
    and "serverETag = generateETag dg (body ctx) (algorithm this) (strength this)"
    and "anyETagMatches (map trim (split CHR '','' raw)) serverETag"
  shows "handleCacheValidation dg dp this ctx cv =
           (NotModified, sendNotModified (header_set ctx ''etag'' serverETag))"
  using assms by (simp add: handleCacheValidation_def Let_def)

text \<open>
  The client's tag matches while the resource is newer than the client's date: the date
  check alone would give \<open>Continue\<close>.
\<close>

theorem etag_match_short_circuits_witness:
  "anyETagMatches (map trim (split CHR '','' (DQ # ''abc'' @ [DQ]))) (DQ # ''abc'' @ [DQ]) \<and>
   handleCacheValidation example_digest example_dates example_channel
       (header_set example_response ''last-modified'' ''Thu, 02 Jan 2020 00:00:00 GMT'')
       \<lparr>etag = Some (DQ # ''abc'' @ [DQ]), modifiedSince = Some ''Wed, 01 Jan 2020 00:00:00 GMT''\<rparr> =
     (NotModified,
      sendNotModified (header_set
        (header_set example_response ''last-modified'' ''Thu, 02 Jan 2020 00:00:00 GMT'')
        ''etag'' (DQ # ''abc'' @ [DQ])))"
proof -
  let ?ctx = "header_set example_response ''last-modified'' ''Thu, 02 Jan 2020 00:00:00 GMT''"
  let ?cv = "\<lparr>etag = Some (DQ # ''abc'' @ [DQ]),
              modifiedSince = Some ''Wed, 01 Jan 2020 00:00:00 GMT''\<rparr>"
  have tag: "DQ # ''abc'' @ [DQ] =
      generateETag example_digest (body ?ctx) (algorithm example_channel) (strength example_channel)"
    using example_fingerprint by (simp add: header_set_def)
  have hit: "anyETagMatches (map trim (split CHR '','' (DQ # ''abc'' @ [DQ]))) (DQ # ''abc'' @ [DQ])"
    by (simp add: anyETagMatches_def trim_def is_space_def)
  have "etag ?cv = Some (DQ # ''abc'' @ [DQ])" and "DQ # ''abc'' @ [DQ] \<noteq> []"
    by simp_all
  from etag_match_short_circuits [where dp = example_dates, OF this tag hit] hit
  show ?thesis by simp
qed

text \<open>
  C3. If the request supplied an If-None-Match value that does not match the generated
  fingerprint, the request supplied If-Modified-Since, the response carries Last-Modified,
  both parse, and Last-Modified is not later than If-Modified-Since, then the outcome is
  \<open>NotModified\<close> all the same.
\<close>

theorem etag_mismatch_falls_through:
  assumes "etag cv = Some raw"
    and "serverETag = generateETag dg (body ctx) (algorithm this) (strength this)"
    and "\<not> anyETagMatches (map trim (split CHR '','' raw)) serverETag"
    and "modifiedSince cv = Some since" and "since \<noteq> []"
    and "header_get ctx ''last-modified'' = Some lm" and "lm \<noteq> []"
    and "parseDate dp lm = Some t1" and "parseDate dp since = Some t2" and "t1 \<le> t2"
  shows "handleCacheValidation dg dp this ctx cv =
           (NotModified, sendNotModified (header_set ctx ''etag'' serverETag))"
  using assms by (simp add: handleCacheValidation_def Let_def header_get_set)

theorem etag_mismatch_falls_through_witness:
  "\<not> anyETagMatches (map trim (split CHR '','' (DQ # ''zzz'' @ [DQ]))) (DQ # ''abc'' @ [DQ]) \<and>
   handleCacheValidation example_digest example_dates example_channel example_response
       \<lparr>etag = Some (DQ # ''zzz'' @ [DQ]), modifiedSince = Some ''Wed, 01 Jan 2020 00:00:00 GMT''\<rparr> =
     (NotModified, sendNotModified (header_set example_response ''etag'' (DQ # ''abc'' @ [DQ])))"
proof -
  let ?cv = "\<lparr>etag = Some (DQ # ''zzz'' @ [DQ]),
              modifiedSince = Some ''Wed, 01 Jan 2020 00:00:00 GMT''\<rparr>"
  have miss: "\<not> anyETagMatches (map trim (split CHR '','' (DQ # ''zzz'' @ [DQ]))) (DQ # ''abc'' @ [DQ])"
    by (simp add: anyETagMatches_def trim_def is_space_def normalizeETag_def replace_quotes_def)
  have "handleCacheValidation example_digest example_dates example_channel example_response ?cv =
     (NotModified, sendNotModified (header_set example_response ''etag'' (DQ # ''abc'' @ [DQ])))"
  proof (rule etag_mismatch_falls_through)
    show "etag ?cv = Some (DQ # ''zzz'' @ [DQ])" by simp
    show "DQ # ''abc'' @ [DQ] = generateETag example_digest (body example_response)
            (algorithm example_channel) (strength example_channel)"
      by (simp only: example_fingerprint)
    show "\<not> anyETagMatches (map trim (split CHR '','' (DQ # ''zzz'' @ [DQ]))) (DQ # ''abc'' @ [DQ])"
      by (rule miss)
    show "modifiedSince ?cv = Some ''Wed, 01 Jan 2020 00:00:00 GMT''" by simp
    show "''Wed, 01 Jan 2020 00:00:00 GMT'' \<noteq> []" by simp
    show "header_get example_response ''last-modified'' = Some ''Tue, 31 Dec 2019 00:00:00 GMT''"
      by (rule example_last_modified)
    show "''Tue, 31 Dec 2019 00:00:00 GMT'' \<noteq> []" by simp
    show "parseDate example_dates ''Tue, 31 Dec 2019 00:00:00 GMT'' = Some 1577750400000"
      by (rule example_parse)
    show "parseDate example_dates ''Wed, 01 Jan 2020 00:00:00 GMT'' = Some 1577836800000"
      by (rule example_parse)
    show "(1577750400000::int) \<le> 1577836800000" by simp
  qed
  with miss show ?thesis by simp
qed

section \<open>The date check\<close>

text \<open>
  C4. If no tag match occurred, the request supplied If-Modified-Since, the response
  carries Last-Modified, and both parse as dates, with time values \<open>t1\<close> (Last-Modified)
  and \<open>t2\<close> (If-Modified-Since), then the outcome is \<open>NotModified\<close> exactly when
  \<open>t1 \<le> t2\<close>, equality included, and \<open>Continue\<close> when \<open>t1\<close> is later.
\<close>

theorem date_check_outcome:
  assumes "serverETag = generateETag dg (body ctx) (algorithm this) (strength this)"
    and "\<forall>raw. etag cv = Some raw \<longrightarrow> raw \<noteq> [] \<longrightarrow>
           \<not> anyETagMatches (map trim (split CHR '','' raw)) serverETag"
    and "modifiedSince cv = Some since" and "since \<noteq> []"
    and "header_get ctx ''last-modified'' = Some lm" and "lm \<noteq> []"
    and "parseDate dp lm = Some t1" and "parseDate dp since = Some t2"
  shows "handleCacheValidation dg dp this ctx cv =
           (if t1 \<le> t2 then (NotModified, sendNotModified (header_set ctx ''etag'' serverETag))
            else (Continue, header_set ctx ''etag'' serverETag))"
  using assms by (auto simp: handleCacheValidation_cases Let_def)

text \<open>
  The two scenarios of the specification, and the boundary: the client's date is 1 January
  2020; a resource of 31 December 2019 or of 1 January 2020 is not modified, one of
  2 January 2020 is sent in full.
\<close>

theorem date_check_outcome_witness:
  "fst (handleCacheValidation example_digest example_dates example_channel example_response
          \<lparr>etag = None, modifiedSince = Some ''Wed, 01 Jan 2020 00:00:00 GMT''\<rparr>) = NotModified \<and>
   fst (handleCacheValidation example_digest example_dates example_channel
          (header_set example_response ''last-modified'' ''Wed, 01 Jan 2020 00:00:00 GMT'')
          \<lparr>etag = None, modifiedSince = Some ''Wed, 01 Jan 2020 00:00:00 GMT''\<rparr>) = NotModified \<and>
   fst (handleCacheValidation example_digest example_dates example_channel
          (header_set example_response ''last-modified'' ''Thu, 02 Jan 2020 00:00:00 GMT'')
          \<lparr>etag = None, modifiedSince = Some ''Wed, 01 Jan 2020 00:00:00 GMT''\<rparr>) = Continue"
proof -
  let ?cv = "\<lparr>etag = None, modifiedSince = Some ''Wed, 01 Jan 2020 00:00:00 GMT''\<rparr>"
  let ?same = "header_set example_response ''last-modified'' ''Wed, 01 Jan 2020 00:00:00 GMT''"
  let ?newer = "header_set example_response ''last-modified'' ''Thu, 02 Jan 2020 00:00:00 GMT''"
  have none: "\<forall>raw. etag ?cv = Some raw \<longrightarrow> raw \<noteq> [] \<longrightarrow>
                \<not> anyETagMatches (map trim (split CHR '','' raw)) s" for s
    by simp
  have since: "modifiedSince ?cv = Some ''Wed, 01 Jan 2020 00:00:00 GMT''"
    and ne: "''Wed, 01 Jan 2020 00:00:00 GMT'' \<noteq> []"
    by simp_all
  have older: "fst (handleCacheValidation example_digest example_dates example_channel
                     example_response ?cv) = NotModified"
    using date_check_outcome [of _ example_digest _ example_channel,
            OF refl none since ne example_last_modified _ example_parse(1) example_parse(2)]
    by simp
  have "header_get ?same ''last-modified'' = Some ''Wed, 01 Jan 2020 00:00:00 GMT''"
    by (simp add: header_get_set)
  from date_check_outcome [of _ example_digest _ example_channel,
         OF refl none since ne this ne example_parse(2) example_parse(2)]
  have equal: "fst (handleCacheValidation example_digest example_dates example_channel
                     ?same ?cv) = NotModified"
    by simp
  have "header_get ?newer ''last-modified'' = Some ''Thu, 02 Jan 2020 00:00:00 GMT''"
    and "''Thu, 02 Jan 2020 00:00:00 GMT'' \<noteq> []"
    by (simp_all add: header_get_set)
  from date_check_outcome [of _ example_digest _ example_channel,
         OF refl none since ne this example_parse(3) example_parse(2)]
  have later: "fst (handleCacheValidation example_digest example_dates example_channel
                     ?newer ?cv) = Continue"
    by simp
  from older equal later show ?thesis by simp
qed

text \<open>
  C5. If the value of If-Modified-Since or the value of Last-Modified fails to parse as a
  date, the date check contributes nothing: \<open>handleCacheValidation\<close> returns what it
  returns for a request without If-Modified-Since, so the unparsable date is not treated as
  a match; and when the date check is reached at all (no tag match occurred), the outcome
  is \<open>Continue\<close>, with only the fingerprint attached. \<open>handleCacheValidation\<close> is a total
  function: the source has no operation on this path that raises (\<open>new Date\<close> of a string
  yields an invalid date instead), so there is no error result.
\<close>

theorem unparsable_date_skips_check:
  assumes "serverETag = generateETag dg (body ctx) (algorithm this) (strength this)"
    and "(\<exists>since. modifiedSince cv = Some since \<and> parseDate dp since = None) \<or>
         (\<exists>lm. header_get ctx ''last-modified'' = Some lm \<and> parseDate dp lm = None)"
  shows "handleCacheValidation dg dp this ctx cv =
           handleCacheValidation dg dp this ctx (cv\<lparr>modifiedSince := None\<rparr>) \<and>
         ((\<forall>raw. etag cv = Some raw \<longrightarrow> raw \<noteq> [] \<longrightarrow>
             \<not> anyETagMatches (map trim (split CHR '','' raw)) serverETag) \<longrightarrow>
          handleCacheValidation dg dp this ctx cv = (Continue, header_set ctx ''etag'' serverETag))"
  using assms by (auto simp: handleCacheValidation_cases Let_def)

text \<open>
  The scenario of the specification: If-Modified-Since is \<open>not-a-date\<close>, no If-None-Match,
  and the response carries a Last-Modified that parses.
\<close>

theorem unparsable_date_skips_check_witness:
  "parseDate example_dates ''not-a-date'' = None \<and>
   parseDate example_dates ''Tue, 31 Dec 2019 00:00:00 GMT'' = Some 1577750400000 \<and>
   handleCacheValidation example_digest example_dates example_channel example_response
       \<lparr>etag = None, modifiedSince = Some ''not-a-date''\<rparr> =
     (Continue, header_set example_response ''etag'' (DQ # ''abc'' @ [DQ]))"
proof -
  let ?cv = "\<lparr>etag = None, modifiedSince = Some ''not-a-date''\<rparr>"
  have bad: "(\<exists>since. modifiedSince ?cv = Some since \<and> parseDate example_dates since = None) \<or>
         (\<exists>lm. header_get example_response ''last-modified'' = Some lm \<and>
               parseDate example_dates lm = None)"
    by (simp add: example_parse)
  from unparsable_date_skips_check
         [of _ example_digest example_response example_channel ?cv example_dates, OF refl bad]
  have "handleCacheValidation example_digest example_dates example_channel example_response ?cv =
     (Continue, header_set example_response ''etag''
        (generateETag example_digest (body example_response) (algorithm example_channel)
           (strength example_channel)))"
    by (elim conjE impE) simp_all
  then show ?thesis
    by (simp add: example_parse example_fingerprint)
qed

section \<open>The 304 rewrite\<close>

text \<open>
  C8. Whenever the outcome of validation is \<open>NotModified\<close>, the resulting response has
  status 304, no body, and neither a Content-Type nor a Content-Length header.
\<close>

theorem not_modified_rewrites_response:
  assumes "handleCacheValidation dg dp this ctx cv = (NotModified, ctx')"
  shows "status ctx' = 304 \<and> body ctx' = None \<and>
         header_get ctx' ''content-type'' = None \<and> header_get ctx' ''content-length'' = None"
  unfolding handleCacheValidation_NotModified [OF assms]
  by (simp add: sendNotModified_fields sendNotModified_header)

text \<open>
  The scenario of the specification: If-None-Match is \<open>"abc"\<close> and the fingerprint is
  \<open>"abc"\<close>; the response carried both entity headers and a body.
\<close>

theorem not_modified_rewrites_response_witness:
  "header_get example_response ''content-type'' = Some ''text/plain'' \<and>
   header_get example_response ''content-length'' = Some ''5'' \<and>
   body example_response = Some ''hello'' \<and>
   handleCacheValidation example_digest example_dates example_channel example_response
       \<lparr>etag = Some (DQ # ''abc'' @ [DQ]), modifiedSince = None\<rparr> =
     (NotModified, sendNotModified (header_set example_response ''etag'' (DQ # ''abc'' @ [DQ]))) \<and>
   status (sendNotModified (header_set example_response ''etag'' (DQ # ''abc'' @ [DQ]))) = 304 \<and>
   body (sendNotModified (header_set example_response ''etag'' (DQ # ''abc'' @ [DQ]))) = None \<and>
   header_get (sendNotModified (header_set example_response ''etag'' (DQ # ''abc'' @ [DQ])))
     ''content-type'' = None \<and>
   header_get (sendNotModified (header_set example_response ''etag'' (DQ # ''abc'' @ [DQ])))
     ''content-length'' = None"
proof -
  have before: "header_get example_response ''content-type'' = Some ''text/plain''"
    "header_get example_response ''content-length'' = Some ''5''"
    "body example_response = Some ''hello''"
    by (simp_all add: header_get_def example_response_def)
  have run: "handleCacheValidation example_digest example_dates example_channel example_response
       \<lparr>etag = Some (DQ # ''abc'' @ [DQ]), modifiedSince = None\<rparr> =
     (NotModified, sendNotModified (header_set example_response ''etag'' (DQ # ''abc'' @ [DQ])))"
    by (simp add: handleCacheValidation_def Let_def example_fingerprint anyETagMatches_def
          trim_def is_space_def)
  from not_modified_rewrites_response [OF run] before run show ?thesis
    by simp
qed

text \<open>
  C10. After a \<open>NotModified\<close> outcome the response carries the fingerprint that was
  attached at the start of validation, and every header other than Content-Type and
  Content-Length is what it was when the fingerprint had been attached. \<open>sendNotModified\<close>
  itself leaves every header other than those two as it was, and leaves the method, the
  host and the subdomains alone: it changes only the status, the body and the two headers.
\<close>

theorem not_modified_frame:
  assumes "handleCacheValidation dg dp this ctx cv = (NotModified, ctx')"
    and "name \<noteq> ''content-type''" and "name \<noteq> ''content-length''"
  shows "header_get ctx' ''etag'' =
           Some (generateETag dg (body ctx) (algorithm this) (strength this)) \<and>
         header_get ctx' name =
           header_get (header_set ctx ''etag''
             (generateETag dg (body ctx) (algorithm this) (strength this))) name \<and>
         header_get (sendNotModified c) name = header_get c name \<and>
         http_method (sendNotModified c) = http_method c \<and>
         host (sendNotModified c) = host c \<and>
         subdomains (sendNotModified c) = subdomains c"
proof -
  have tag: "header_get ctx' ''etag'' =
           Some (generateETag dg (body ctx) (algorithm this) (strength this))"
    unfolding handleCacheValidation_NotModified [OF assms(1)]
    by (simp add: sendNotModified_header header_get_set)
  have others: "header_get (sendNotModified c') name = header_get c' name" for c'
    using assms(2,3) by (simp add: sendNotModified_header)
  have "header_get ctx' name =
           header_get (header_set ctx ''etag''
             (generateETag dg (body ctx) (algorithm this) (strength this))) name"
    unfolding handleCacheValidation_NotModified [OF assms(1)] by (rule others)
  with tag others [of c] show ?thesis
    by (simp only: sendNotModified_fields simp_thms)
qed

text \<open>On the sample response the Last-Modified header survives the rewrite, next to the tag.\<close>

theorem not_modified_frame_witness:
  "handleCacheValidation example_digest example_dates example_channel example_response
       \<lparr>etag = Some ''*'', modifiedSince = None\<rparr> =
     (NotModified, sendNotModified (header_set example_response ''etag'' (DQ # ''abc'' @ [DQ]))) \<and>
   header_get (sendNotModified (header_set example_response ''etag'' (DQ # ''abc'' @ [DQ])))
     ''etag'' = Some (DQ # ''abc'' @ [DQ]) \<and>
   header_get (sendNotModified (header_set example_response ''etag'' (DQ # ''abc'' @ [DQ])))
     ''last-modified'' = Some ''Tue, 31 Dec 2019 00:00:00 GMT'' \<and>
   http_method (sendNotModified example_response) = ''GET''"
proof -
  have run: "handleCacheValidation example_digest example_dates example_channel example_response
       \<lparr>etag = Some ''*'', modifiedSince = None\<rparr> =
     (NotModified, sendNotModified (header_set example_response ''etag'' (DQ # ''abc'' @ [DQ])))"
    by (simp add: handleCacheValidation_def Let_def example_fingerprint anyETagMatches_def
          trim_def is_space_def)
  have names: "''last-modified'' \<noteq> ''content-type''" "''last-modified'' \<noteq> ''content-length''"
    by simp_all
  have get: "http_method example_response = ''GET''"
    by (simp add: example_response_def)
  from not_modified_frame [OF run names, of example_response] run get
  show ?thesis
    by (simp add: example_fingerprint header_get_set example_last_modified)
qed

section \<open>The Header Comparator\<close>

text \<open>Facts about the normalisation of quoted tags and about values without a comma.\<close>

lemma replace_weak_i_take_drop:
  "replace_weak_i t = (if take 2 t = ''W/'' \<or> take 2 t = ''w/'' then drop 2 t else t)"
  by (cases t rule: replace_weak_i.cases) auto

lemma replace_weak_eq_i: "take 2 t \<noteq> ''w/'' \<Longrightarrow> replace_weak t = replace_weak_i t"
  by (cases t rule: replace_weak.cases) auto

lemma split_without_separator: "c \<notin> set s \<Longrightarrow> split c s = [s]"
  by (induction s) auto

lemma trim_quoted: "trim (DQ # x @ [DQ]) = DQ # x @ [DQ]"
  by (simp add: trim_def is_space_def)

lemma trim_weak_quoted: "trim (''W/'' @ DQ # x @ [DQ]) = ''W/'' @ DQ # x @ [DQ]"
  by (simp add: trim_def is_space_def)

lemma normalizeETag_quoted: "normalizeETag (DQ # x @ [DQ]) = filter (\<lambda>ch. ch \<noteq> DQ) x"
  by (cases x) (simp_all add: normalizeETag_def replace_quotes_def)

lemma normalizeETag_weak_quoted:
  "normalizeETag (''W/'' @ DQ # x @ [DQ]) = filter (\<lambda>ch. ch \<noteq> DQ) x"
  by (simp add: normalizeETag_def replace_quotes_def)

lemma normalize_tag_quoted: "normalize_tag (DQ # x @ [DQ]) = filter (\<lambda>ch. ch \<noteq> DQ) x"
  by (cases x) (simp_all add: normalize_tag_def replace_quotes_def)

lemma normalize_tag_weak_quoted:
  "normalize_tag (''W/'' @ DQ # x @ [DQ]) = filter (\<lambda>ch. ch \<noteq> DQ) x"
  by (simp add: normalize_tag_def replace_quotes_def)

lemma compareETags_single:
  "c \<noteq> [] \<Longrightarrow> s \<noteq> [] \<Longrightarrow> CHR '','' \<notin> set c \<Longrightarrow>
     compareETags c s \<longleftrightarrow> c = ''*'' \<or> normalize_tag c = normalize_tag s"
  by (subst compareETags.simps) simp

text \<open>
  C6, as amended. In \<open>anyETagMatches\<close> a client element matches when it is \<open>*\<close> or when it
  and the server tag are equal after \<open>normalizeETag\<close>, which removes one leading \<open>W/\<close> or
  \<open>w/\<close> and then every double quote, wherever it stands. \<open>compareETags\<close> decides the same
  way for a non-empty client tag without a comma and a non-empty server tag, when neither
  starts with a lower-case \<open>w/\<close>. For every identifier \<open>x\<close>, the strong tag \<open>"x"\<close> and the
  weak tag \<open>W/"x"\<close> match in both directions in \<open>anyETagMatches\<close>; when \<open>x\<close> contains no
  comma they also do so through the comma-separated decomposition of the pipeline and in
  \<open>compareETags\<close>.
\<close>

theorem normalized_equality_amended:
  "(anyETagMatches [c] s \<longleftrightarrow> c = ''*'' \<or> normalizeETag c = normalizeETag s) \<and>
   normalizeETag t =
     filter (\<lambda>ch. ch \<noteq> DQ) (if take 2 t = ''W/'' \<or> take 2 t = ''w/'' then drop 2 t else t) \<and>
   (c \<noteq> [] \<and> s \<noteq> [] \<and> CHR '','' \<notin> set c \<and> take 2 c \<noteq> ''w/'' \<and> take 2 s \<noteq> ''w/'' \<longrightarrow>
      (compareETags c s \<longleftrightarrow> c = ''*'' \<or> normalizeETag c = normalizeETag s)) \<and>
   anyETagMatches [DQ # x @ [DQ]] (''W/'' @ DQ # x @ [DQ]) \<and>
   anyETagMatches [''W/'' @ DQ # x @ [DQ]] (DQ # x @ [DQ]) \<and>
   (CHR '','' \<notin> set x \<longrightarrow>
      anyETagMatches (map trim (split CHR '','' (DQ # x @ [DQ]))) (''W/'' @ DQ # x @ [DQ]) \<and>
      anyETagMatches (map trim (split CHR '','' (''W/'' @ DQ # x @ [DQ]))) (DQ # x @ [DQ]) \<and>
      compareETags (DQ # x @ [DQ]) (''W/'' @ DQ # x @ [DQ]) \<and>
      compareETags (''W/'' @ DQ # x @ [DQ]) (DQ # x @ [DQ]))"
proof (intro conjI impI)
  show "anyETagMatches [c] s \<longleftrightarrow> c = ''*'' \<or> normalizeETag c = normalizeETag s"
    by (simp add: anyETagMatches_def)
  show "normalizeETag t =
     filter (\<lambda>ch. ch \<noteq> DQ) (if take 2 t = ''W/'' \<or> take 2 t = ''w/'' then drop 2 t else t)"
    by (simp only: normalizeETag_def replace_quotes_def replace_weak_i_take_drop)
  show "compareETags c s \<longleftrightarrow> c = ''*'' \<or> normalizeETag c = normalizeETag s"
    if "c \<noteq> [] \<and> s \<noteq> [] \<and> CHR '','' \<notin> set c \<and> take 2 c \<noteq> ''w/'' \<and> take 2 s \<noteq> ''w/''"
    using that
    by (simp add: compareETags_single normalize_tag_def normalizeETag_def replace_weak_eq_i)
  have same: "normalizeETag (DQ # x @ [DQ]) = normalizeETag (''W/'' @ DQ # x @ [DQ])"
    by (simp only: normalizeETag_quoted normalizeETag_weak_quoted)
  then show a1: "anyETagMatches [DQ # x @ [DQ]] (''W/'' @ DQ # x @ [DQ])"
    by (simp add: anyETagMatches_def)
  from same show a2: "anyETagMatches [''W/'' @ DQ # x @ [DQ]] (DQ # x @ [DQ])"
    by (simp add: anyETagMatches_def)
  assume nc: "CHR '','' \<notin> set x"
  then have "split CHR '','' (DQ # x @ [DQ]) = [DQ # x @ [DQ]]"
    by (intro split_without_separator) simp
  then show "anyETagMatches (map trim (split CHR '','' (DQ # x @ [DQ]))) (''W/'' @ DQ # x @ [DQ])"
    using a1 by (simp only: list.map trim_quoted)
  from nc have "split CHR '','' (''W/'' @ DQ # x @ [DQ]) = [''W/'' @ DQ # x @ [DQ]]"
    by (intro split_without_separator) simp
  then show "anyETagMatches (map trim (split CHR '','' (''W/'' @ DQ # x @ [DQ]))) (DQ # x @ [DQ])"
    using a2 by (simp only: list.map trim_weak_quoted)
  from nc have "compareETags (DQ # x @ [DQ]) (''W/'' @ DQ # x @ [DQ]) \<longleftrightarrow>
      DQ # x @ [DQ] = ''*'' \<or>
      normalize_tag (DQ # x @ [DQ]) = normalize_tag (''W/'' @ DQ # x @ [DQ])"
    by (intro compareETags_single) simp_all
  then show "compareETags (DQ # x @ [DQ]) (''W/'' @ DQ # x @ [DQ])"
    by (simp only: normalize_tag_quoted normalize_tag_weak_quoted) simp
  from nc have "compareETags (''W/'' @ DQ # x @ [DQ]) (DQ # x @ [DQ]) \<longleftrightarrow>
      ''W/'' @ DQ # x @ [DQ] = ''*'' \<or>
      normalize_tag (''W/'' @ DQ # x @ [DQ]) = normalize_tag (DQ # x @ [DQ])"
    by (intro compareETags_single) simp_all
  then show "compareETags (''W/'' @ DQ # x @ [DQ]) (DQ # x @ [DQ])"
    by (simp only: normalize_tag_quoted normalize_tag_weak_quoted) simp
qed

text \<open>The identifier \<open>abc\<close>.\<close>

theorem normalized_equality_amended_witness:
  "CHR '','' \<notin> set ''abc'' \<and> CHR '','' \<notin> set (''W/'' @ DQ # ''abc'' @ [DQ]) \<and>
   take 2 (''W/'' @ DQ # ''abc'' @ [DQ]) \<noteq> ''w/'' \<and> take 2 (DQ # ''abc'' @ [DQ]) \<noteq> ''w/'' \<and>
   normalizeETag (''w/'' @ DQ # ''abc'' @ [DQ]) = ''abc'' \<and>
   normalizeETag (''W/'' @ DQ # ''abc'' @ [DQ]) = normalizeETag (DQ # ''abc'' @ [DQ]) \<and>
   compareETags (''W/'' @ DQ # ''abc'' @ [DQ]) (DQ # ''abc'' @ [DQ]) \<and>
   compareETags (DQ # ''abc'' @ [DQ]) (''W/'' @ DQ # ''abc'' @ [DQ]) \<and>
   anyETagMatches (map trim (split CHR '','' (DQ # ''abc'' @ [DQ]))) (''W/'' @ DQ # ''abc'' @ [DQ]) \<and>
   anyETagMatches (map trim (split CHR '','' (''W/'' @ DQ # ''abc'' @ [DQ]))) (DQ # ''abc'' @ [DQ])"
proof -
  have hyp: "CHR '','' \<notin> set ''abc''" "CHR '','' \<notin> set (''W/'' @ DQ # ''abc'' @ [DQ])"
    "take 2 (''W/'' @ DQ # ''abc'' @ [DQ]) \<noteq> ''w/''" "take 2 (DQ # ''abc'' @ [DQ]) \<noteq> ''w/''"
    by simp_all
  have eq: "normalizeETag (''W/'' @ DQ # ''abc'' @ [DQ]) = normalizeETag (DQ # ''abc'' @ [DQ])"
    by (simp add: normalizeETag_def replace_quotes_def)
  note inst = normalized_equality_amended
    [of "''W/'' @ DQ # ''abc'' @ [DQ]" "DQ # ''abc'' @ [DQ]" "''w/'' @ DQ # ''abc'' @ [DQ]" "''abc''"]
  from inst have norm: "normalizeETag (''w/'' @ DQ # ''abc'' @ [DQ]) = ''abc''"
    by simp
  from inst hyp(1) have sym:
    "anyETagMatches (map trim (split CHR '','' (DQ # ''abc'' @ [DQ]))) (''W/'' @ DQ # ''abc'' @ [DQ])"
    "anyETagMatches (map trim (split CHR '','' (''W/'' @ DQ # ''abc'' @ [DQ]))) (DQ # ''abc'' @ [DQ])"
    "compareETags (DQ # ''abc'' @ [DQ]) (''W/'' @ DQ # ''abc'' @ [DQ])"
    by blast+
  have "''W/'' @ DQ # ''abc'' @ [DQ] \<noteq> []" and "DQ # ''abc'' @ [DQ] \<noteq> []"
    by simp_all
  with inst hyp(2-4) have "compareETags (''W/'' @ DQ # ''abc'' @ [DQ]) (DQ # ''abc'' @ [DQ]) \<longleftrightarrow>
      ''W/'' @ DQ # ''abc'' @ [DQ] = ''*'' \<or>
      normalizeETag (''W/'' @ DQ # ''abc'' @ [DQ]) = normalizeETag (DQ # ''abc'' @ [DQ])"
    by blast
  with eq have single: "compareETags (''W/'' @ DQ # ''abc'' @ [DQ]) (DQ # ''abc'' @ [DQ])"
    by blast
  from hyp norm eq sym single show ?thesis
    by (intro conjI)
qed

text \<open>
  C6 as stated fails at three inputs. The tags \<open>w/"x"\<close> and \<open>"x"\<close> are equal in the
  specification's normalized equality, and \<open>compareETags\<close> rejects them: its \<open>normalize\<close>
  removes only an upper-case \<open>W/\<close>. For the identifier \<open>a,b\<close>, \<open>compareETags\<close> rejects the
  strong tag against the weak one, because it splits the client tag at the comma. The
  tags \<open>"a"b"\<close> and \<open>"ab"\<close> differ once their surrounding quotes are stripped, and
  \<open>anyETagMatches\<close> accepts them, because every quote is removed.
\<close>

theorem normalized_equality_counterexample:
  "spec_normalized_equal (''w/'' @ DQ # ''x'' @ [DQ]) (DQ # ''x'' @ [DQ]) \<and>
   \<not> compareETags (''w/'' @ DQ # ''x'' @ [DQ]) (DQ # ''x'' @ [DQ]) \<and>
   \<not> compareETags (DQ # ''a,b'' @ [DQ]) (''W/'' @ DQ # ''a,b'' @ [DQ]) \<and>
   \<not> spec_normalized_equal (DQ # ''a'' @ DQ # ''b'' @ [DQ]) (DQ # ''ab'' @ [DQ]) \<and>
   anyETagMatches [DQ # ''a'' @ DQ # ''b'' @ [DQ]] (DQ # ''ab'' @ [DQ])"
  by (simp add: spec_normalized_equal_def spec_identifier_def spec_strip_quotes_def
        normalize_tag_def normalizeETag_def replace_quotes_def anyETagMatches_def trim_def
        is_space_def)




end
